theory Spec2Isabelle
  imports Complex_Main "HOL-Library.Log_Nat"
begin

section \<open>Speed benchmark for transformer inference: a model of the script\<close>

text \<open>
  The script \<^verbatim>\<open>examples/speed-benchmark/speed_benchmark_transformer.py\<close> loads a
  causal language model, runs one generation on a synthetic prompt, times it, reads the
  memory counters of the devices and writes a one-row table.

  Conventions of the model:
  \<^item> a Python \<^verbatim>\<open>str\<close> is a \<^typ>\<open>string\<close> holding its UTF-8 bytes; the script only
    repeats strings, concatenates them and looks for the ASCII character \<^verbatim>\<open>/\<close>, and
    these operations agree on code points and on UTF-8 bytes;
  \<^item> a Python \<^verbatim>\<open>int\<close> is an \<^typ>\<open>int\<close>; a tensor dimension and a byte counter are
    \<^typ>\<open>nat\<close>;
  \<^item> a Python \<^verbatim>\<open>float\<close> is the rational number it stands for. The difference of
    the two readings of the clock and the quotient of 2048 by it are rounded to binary64
    (53 bits, to nearest, ties to even), as the float operations \<^verbatim>\<open>-\<close> and
    \<^verbatim>\<open>/\<close> do; the exponent is not bounded, so there are no infinities and no
    subnormal numbers. The division of a byte count by 1024 is exact in binary64 for
    counts below \<open>2^53\<close> and is modelled as exact. \<^verbatim>\<open>round(x, 4)\<close> rounds the exact
    value of \<open>x\<close> to four decimal places, ties to even, and its result is named by
    that decimal number;
  \<^item> an exception is a value of \<open>py_error\<close>; every function that has effects returns
    its outcome together with the state it leaves behind;
  \<^item> the libraries the script calls (the model hub, the tokenizer, the model, the clock,
    the device counters) are fields of a record \<open>env\<close> the functions take as a
    parameter; the file system is a small model of POSIX path lookup;
  \<^item> \<^verbatim>\<open>os.path\<close> is \<^verbatim>\<open>posixpath\<close>, and the file system has no symbolic links;
  \<^item> the calls whose result the script does not use (\<^verbatim>\<open>print\<close>, \<^verbatim>\<open>json.dumps\<close>,
    \<^verbatim>\<open>torch.cuda.synchronize\<close>, \<^verbatim>\<open>torch.cuda.empty_cache\<close>, moving the inputs to
    the device of the model) are taken to return, and console output is not modelled.
\<close>

subsection \<open>Strings and paths\<close>

definition digit_char :: "nat \<Rightarrow> char" where
  "digit_char d = ''0123456789'' ! d"

text \<open>\<^verbatim>\<open>str(n)\<close> for a natural number and for an integer.\<close>

function str_nat :: "nat \<Rightarrow> string" where
  "str_nat n = (if n < 10 then [digit_char n] else str_nat (n div 10) @ [digit_char (n mod 10)])"
  by pat_completeness auto
termination
  by (relation "measure id") auto

declare str_nat.simps [simp del]

definition str_int :: "int \<Rightarrow> string" where
  "str_int i = (if i < 0 then CHR ''-'' # str_nat (nat (- i)) else str_nat (nat i))"

text \<open>\<^verbatim>\<open>s * n\<close>: the empty string when \<^verbatim>\<open>n\<close> is not positive.\<close>

definition str_repeat :: "string \<Rightarrow> int \<Rightarrow> string" where
  "str_repeat s n = concat (replicate (nat n) s)"

text \<open>\<^verbatim>\<open>s.replace(c, t)\<close> for a pattern \<^verbatim>\<open>c\<close> of one character.\<close>

definition str_replace :: "char \<Rightarrow> string \<Rightarrow> string \<Rightarrow> string" where
  "str_replace c t s = concat (map (\<lambda>x. if x = c then t else [x]) s)"

definition rstrip_sep :: "string \<Rightarrow> string" where
  "rstrip_sep s = rev (dropWhile (\<lambda>c. c = CHR ''/'') (rev s))"

text \<open>
  \<^verbatim>\<open>posixpath.split\<close>: the head is everything up to the last slash, with its trailing
  slashes removed unless it consists of slashes only; the tail is what follows.
\<close>

definition path_split :: "string \<Rightarrow> string \<times> string" where
  "path_split p =
     (let tail = rev (takeWhile (\<lambda>c. c \<noteq> CHR ''/'') (rev p));
          head = rev (dropWhile (\<lambda>c. c \<noteq> CHR ''/'') (rev p))
      in (if list_all (\<lambda>c. c = CHR ''/'') head then head else rstrip_sep head, tail))"

definition dirname :: "string \<Rightarrow> string" where
  "dirname p = fst (path_split p)"


text \<open>\<^verbatim>\<open>posixpath.join(a, b)\<close> with two arguments.\<close>

definition path_join :: "string \<Rightarrow> string \<Rightarrow> string" where
  "path_join a b =
     (if b \<noteq> [] \<and> hd b = CHR ''/'' then b
      else if a = [] \<or> last a = CHR ''/'' then a @ b
      else a @ ''/'' @ b)"

text \<open>The components of a path: the pieces between slashes, empty ones included.\<close>

fun split_sep :: "string \<Rightarrow> string list" where
  "split_sep [] = [[]]"
| "split_sep (c # cs) =
     (if c = CHR ''/'' then [] # split_sep cs
      else (case split_sep cs of [] \<Rightarrow> [[c]] | x # xs \<Rightarrow> (c # x) # xs))"

subsection \<open>Values, exceptions and the table that is written\<close>

datatype py_error =
    ImportError string
  | AssertionError
  | ZeroDivisionError
  | TypeError
  | AttributeError
  | FileNotFoundError
  | FileExistsError
  | NotADirectoryError
  | IsADirectoryError
  | FrameworkError string
  | SystemExit int

datatype pyvalue = PNone | PBool bool | PInt int | PFloat rat | PStr string

text \<open>
  A \<^verbatim>\<open>pandas.DataFrame\<close>: the column labels and the rows; a cell is \<open>None\<close> where
  the row's dictionary has no such key.
\<close>

record dataframe =
  columns :: "string list"
  rows :: "pyvalue option list list"

text \<open>
  \<^verbatim>\<open>pd.DataFrame(dicts)\<close> for a list of dictionaries: the columns are the keys in the
  order of their first appearance, one row per dictionary.
\<close>

definition DataFrame :: "(string \<times> pyvalue) list list \<Rightarrow> dataframe" where
  "DataFrame dicts =
     (let cols = rev (remdups (rev (concat (map (map fst) dicts))))
      in \<lparr>columns = cols, rows = map (\<lambda>d. map (map_of d) cols) dicts\<rparr>)"

subsection \<open>Floats\<close>

text \<open>Rounding to the nearest integer, a tie going to the even neighbour.\<close>

definition round_half_even :: "rat \<Rightarrow> int" where
  "round_half_even y =
     (let f = \<lfloor>y\<rfloor>; d = y - of_int f
      in if d < 1 / 2 then f else if 1 / 2 < d then f + 1 else if even f then f else f + 1)"

text \<open>\<^verbatim>\<open>round(x, n)\<close> for a float \<^verbatim>\<open>x\<close> and \<^verbatim>\<open>n\<close> decimal places.\<close>

definition py_round :: "rat \<Rightarrow> nat \<Rightarrow> rat" where
  "py_round x n = of_int (round_half_even (x * 10 ^ n)) / 10 ^ n"

text \<open>
  The binary exponent of a number that is not zero, \<open>\<lfloor>log\<^sub>2 \<bar>x\<bar>\<rfloor>\<close>, from the bit
  lengths of numerator and denominator; and the rounding of a rational number to the
  nearest number \<open>m * 2^e\<close> with \<open>\<bar>m\<bar> \<le> 2^53\<close>, a tie going to the even \<open>m\<close>.
\<close>

definition ilog2 :: "rat \<Rightarrow> int" where
  "ilog2 x =
     (let (p, q) = quotient_of \<bar>x\<bar>;
          k = bitlen p - bitlen q
      in if 2 powi k \<le> \<bar>x\<bar> then k else k - 1)"

definition binary64 :: "rat \<Rightarrow> rat" where
  "binary64 x =
     (if x = 0 then 0
      else (let e = ilog2 x - 52 in of_int (round_half_even (x / 2 powi e)) * 2 powi e))"

subsection \<open>The file system\<close>

datatype file_content = CsvText dataframe | OtherContent

datatype node = Dir | File file_content

text \<open>
  The state outside the object: the seed of the global random number generators, the
  environment variable the script sets, the model snapshots that were downloaded, and the
  file system, a map from absolute paths (lists of names, the root being the empty list)
  to nodes, with the working directory.
\<close>

record world =
  rng_seed :: "int option"
  cuda_visible_devices :: "string option"
  downloaded :: "string option list"
  fs :: "string list \<Rightarrow> node option"
  cwd :: "string list"

text \<open>
  Path lookup, one component at a time: the place reached so far has to be a directory
  before the next component is read; an empty component and \<^verbatim>\<open>.\<close> stay, \<^verbatim>\<open>..\<close> goes
  to the parent. The place reached after the last component is not examined.
\<close>

fun walk :: "(string list \<Rightarrow> node option) \<Rightarrow> string list \<Rightarrow> string list \<Rightarrow> py_error + string list" where
  "walk t cur [] = Inr cur"
| "walk t cur (c # cs) =
     (case t cur of
        None \<Rightarrow> Inl FileNotFoundError
      | Some (File _) \<Rightarrow> Inl NotADirectoryError
      | Some Dir \<Rightarrow>
          walk t (if c = [] \<or> c = ''.'' then cur else if c = ''..'' then butlast cur else cur @ [c]) cs)"

definition start_dir :: "world \<Rightarrow> string \<Rightarrow> string list" where
  "start_dir w p = (if p \<noteq> [] \<and> hd p = CHR ''/'' then [] else cwd w)"

definition lookup_path :: "world \<Rightarrow> string \<Rightarrow> py_error + string list" where
  "lookup_path w p =
     (if p = [] then Inl FileNotFoundError else walk (fs w) (start_dir w p) (split_sep p))"

text \<open>\<^verbatim>\<open>os.path.exists\<close> and \<^verbatim>\<open>os.path.isdir\<close>: false when the lookup fails.\<close>

definition path_exists :: "world \<Rightarrow> string \<Rightarrow> bool" where
  "path_exists w p = (case lookup_path w p of Inl _ \<Rightarrow> False | Inr c \<Rightarrow> fs w c \<noteq> None)"

definition isdir :: "world \<Rightarrow> string \<Rightarrow> bool" where
  "isdir w p = (case lookup_path w p of Inl _ \<Rightarrow> False | Inr c \<Rightarrow> fs w c = Some Dir)"

text \<open>
  Where a new entry named by \<open>p\<close> would go: the directory reached by all components but
  the last, and the last component. Trailing slashes do not count.
\<close>

definition parent_and_leaf :: "world \<Rightarrow> string \<Rightarrow> py_error + (string list \<times> string)" where
  "parent_and_leaf w p =
     (let comps = split_sep (rstrip_sep p)
      in case walk (fs w) (start_dir w p) (butlast comps) of
           Inl e \<Rightarrow> Inl e
         | Inr d \<Rightarrow>
             (case fs w d of
                None \<Rightarrow> Inl FileNotFoundError
              | Some (File _) \<Rightarrow> Inl NotADirectoryError
              | Some Dir \<Rightarrow> Inr (d, last comps)))"

text \<open>\<^verbatim>\<open>os.mkdir\<close>: the empty path does not exist; the parent has to; the entry must not.\<close>

definition mkdir :: "string \<Rightarrow> world \<Rightarrow> py_error + world" where
  "mkdir p w =
     (if p = [] then Inl FileNotFoundError
      else case parent_and_leaf w p of
             Inl e \<Rightarrow> Inl e
           | Inr (d, leaf) \<Rightarrow>
               if leaf = [] \<or> leaf = ''.'' \<or> leaf = ''..'' \<or> fs w (d @ [leaf]) \<noteq> None
               then Inl FileExistsError
               else Inr (w\<lparr>fs := (fs w)(d @ [leaf] \<mapsto> Dir)\<rparr>))"

text \<open>
  Opening \<open>p\<close> for writing and writing \<open>c\<close>: the file is created or replaced. A path
  that ends with a slash, or names a directory, cannot be opened for writing.
\<close>

definition write_file :: "string \<Rightarrow> file_content \<Rightarrow> world \<Rightarrow> py_error + world" where
  "write_file p c w =
     (if p = [] then Inl FileNotFoundError
      else case parent_and_leaf w p of
             Inl e \<Rightarrow> Inl e
           | Inr (d, leaf) \<Rightarrow>
               if last p = CHR ''/'' then
                 (case fs w (d @ [leaf]) of
                    Some (File _) \<Rightarrow> Inl NotADirectoryError
                  | _ \<Rightarrow> Inl IsADirectoryError)
               else if leaf = ''.'' \<or> leaf = ''..'' \<or> fs w (d @ [leaf]) = Some Dir
               then Inl IsADirectoryError
               else Inr (w\<lparr>fs := (fs w)(d @ [leaf] \<mapsto> File c)\<rparr>))"

text \<open>
  \<^verbatim>\<open>os.makedirs(name, exist_ok=...)\<close>, after the standard library:
  \<^verbatim>\<open>
  head, tail = path.split(name)
  if not tail:
      head, tail = path.split(head)
  if head and tail and not path.exists(head):
      try:
          makedirs(head, exist_ok=exist_ok)
      except FileExistsError:
          pass
      if tail == curdir:
          return
  try:
      mkdir(name, mode)
  except OSError:
      if not exist_ok or not path.isdir(name):
          raise
  \<close>
\<close>

definition makedirs_head :: "string \<Rightarrow> string" where
  "makedirs_head name =
     (if snd (path_split name) = [] then fst (path_split (fst (path_split name)))
      else fst (path_split name))"

definition makedirs_tail :: "string \<Rightarrow> string" where
  "makedirs_tail name =
     (if snd (path_split name) = [] then snd (path_split (fst (path_split name)))
      else snd (path_split name))"

definition mkdir_leaf :: "string \<Rightarrow> bool \<Rightarrow> world \<Rightarrow> (py_error + unit) \<times> world" where
  "mkdir_leaf name exist_ok w =
     (case mkdir name w of
        Inr w' \<Rightarrow> (Inr (), w')
      | Inl e \<Rightarrow> if \<not> exist_ok \<or> \<not> isdir w name then (Inl e, w) else (Inr (), w))"

function makedirs :: "string \<Rightarrow> bool \<Rightarrow> world \<Rightarrow> (py_error + unit) \<times> world" where
  "makedirs name exist_ok w =
     (if makedirs_head name \<noteq> [] \<and> makedirs_tail name \<noteq> [] \<and> \<not> path_exists w (makedirs_head name)
      then (case makedirs (makedirs_head name) exist_ok w of
              (Inl e, w1) \<Rightarrow>
                if e \<noteq> FileExistsError then (Inl e, w1)
                else if makedirs_tail name = ''.'' then (Inr (), w1)
                else mkdir_leaf name exist_ok w1
            | (Inr u, w1) \<Rightarrow>
                if makedirs_tail name = ''.'' then (Inr (), w1)
                else mkdir_leaf name exist_ok w1)
      else mkdir_leaf name exist_ok w)"
  by pat_completeness auto
termination
proof (relation "measure (\<lambda>(name, exist_ok, w). length name)")
  show "wf (measure (\<lambda>(name, exist_ok, w). length name))"
    by simp
next
  fix name :: string and exist_ok :: bool and w :: world
  assume nonempty: "makedirs_head name \<noteq> [] \<and> makedirs_tail name \<noteq> [] \<and>
    \<not> path_exists w (makedirs_head name)"
  have whole: "length (fst (path_split p)) + length (snd (path_split p)) \<le> length p" for p
  proof -
    have "length (rev (dropWhile (\<lambda>c. c \<noteq> CHR ''/'') (rev p)))
        + length (rev (takeWhile (\<lambda>c. c \<noteq> CHR ''/'') (rev p))) = length p"
      by (metis add.commute length_append length_rev takeWhile_dropWhile_id)
    moreover have "length (rstrip_sep h) \<le> length h" for h
      by (simp add: rstrip_sep_def) (metis length_dropWhile_le length_rev)
    ultimately show ?thesis
      by (simp add: path_split_def Let_def) (metis add_le_mono1 length_rev)
  qed
  have "length (makedirs_head name) < length name"
  proof (cases "snd (path_split name) = []")
    case True
    with nonempty have "0 < length (snd (path_split (fst (path_split name))))"
      by (simp add: makedirs_tail_def)
    with whole [of "fst (path_split name)"] whole [of name]
    have "length (fst (path_split (fst (path_split name)))) < length name"
      by arith
    with True show ?thesis
      by (simp add: makedirs_head_def)
  next
    case False
    then have "0 < length (snd (path_split name))"
      by simp
    with whole [of name] have "length (fst (path_split name)) < length name"
      by arith
    with False show ?thesis
      by (simp add: makedirs_head_def)
  qed
  then show "((makedirs_head name, exist_ok, w), (name, exist_ok, w))
      \<in> measure (\<lambda>(name, exist_ok, w). length name)"
    by simp
qed

declare makedirs.simps [simp del]

subsection \<open>The libraries the script calls\<close>

type_synonym shape = "nat \<times> nat"

text \<open>The two fields of \<^verbatim>\<open>GenerationConfig\<close> the script assigns.\<close>

record generation_config =
  min_length :: int
  max_new_tokens :: "int option"

text \<open>
  A tokenizer, called on a list of strings with \<^verbatim>\<open>return_tensors='pt'\<close>, gives the shape
  of \<^verbatim>\<open>input_ids\<close> or raises. A model's \<^verbatim>\<open>generate\<close>, called on inputs of a shape with
  a generation configuration, gives the shape of the output or raises.
\<close>

type_synonym tokenizer = "string list \<Rightarrow> py_error + shape"

type_synonym causal_lm = "shape \<Rightarrow> generation_config \<Rightarrow> py_error + shape"

record datetime =
  dt_month :: nat
  dt_day :: nat
  dt_hour :: nat
  dt_minute :: nat
  dt_second :: nat

text \<open>
  What the libraries answer during one execution. The first argument of the hub functions
  tells the registry: \<open>True\<close> for ModelScope, \<open>False\<close> for HuggingFace.
  \<open>time_start\<close> and \<open>time_end\<close> are the two readings of \<^verbatim>\<open>time.time()\<close>,
  \<open>clock_now\<close> the reading of \<^verbatim>\<open>datetime.now()\<close>.
\<close>

record env =
  find_spec :: "string \<Rightarrow> bool"
  import_hub :: "bool \<Rightarrow> py_error option"
  snapshot_download :: "bool \<Rightarrow> string option \<Rightarrow> py_error + string"
  tokenizer_from_pretrained :: "bool \<Rightarrow> string \<Rightarrow> py_error + tokenizer"
  model_from_pretrained :: "bool \<Rightarrow> string \<Rightarrow> string \<Rightarrow> string \<Rightarrow> string \<Rightarrow> py_error + causal_lm"
  config_from_pretrained :: "bool \<Rightarrow> string \<Rightarrow> py_error + generation_config"
  time_start :: rat
  time_end :: rat
  device_count :: nat
  max_memory_allocated :: "nat \<Rightarrow> nat"
  clock_now :: datetime


text \<open>\<^verbatim>\<open>now.strftime("%m%d%H%M%S")\<close>: five fields of two digits.\<close>

definition pad2 :: "nat \<Rightarrow> string" where
  "pad2 n = (if n < 10 then CHR ''0'' # str_nat n else str_nat n)"

definition strftime :: "datetime \<Rightarrow> string" where
  "strftime d = pad2 (dt_month d) @ pad2 (dt_day d) @ pad2 (dt_hour d) @ pad2 (dt_minute d) @ pad2 (dt_second d)"

subsection \<open>The class \<^verbatim>\<open>SpeedBenchmarkTransformer\<close>\<close>

definition BATCH_SIZE :: int where "BATCH_SIZE = 1"
definition USE_FLASH_ATTN :: bool where "USE_FLASH_ATTN = True"
definition COMMENT :: string where "COMMENT = ''default''"
definition GENERATE_LENGTH_PER_EXPERIMENT :: int where "GENERATE_LENGTH_PER_EXPERIMENT = 2048"
definition OVERWRITE_RESULT :: bool where "OVERWRITE_RESULT = False"

text \<open>The character U+6211, as its three UTF-8 bytes.\<close>

definition DUMMY_INPUT :: string where
  "DUMMY_INPUT = [CHR 0xE6, CHR 0x88, CHR 0x91]"

text \<open>The attributes of an instance. \<open>model_id\<close> is \<open>None\<close> when the caller passed \<^verbatim>\<open>None\<close>.\<close>

record benchmark =
  model_id :: "string option"
  outputs_dir :: string
  tokenizer :: tokenizer
  model :: causal_lm
  generation_config :: generation_config



text \<open>\<^verbatim>\<open>save_result\<close>: a frame of the one dictionary, written as CSV without the index.\<close>

definition to_csv :: "dataframe \<Rightarrow> string \<Rightarrow> world \<Rightarrow> (py_error + unit) \<times> world" where
  "to_csv df out_file w =
     (case write_file out_file (CsvText df) w of
        Inl err \<Rightarrow> (Inl err, w)
      | Inr w' \<Rightarrow> (Inr (), w'))"

definition save_result :: "(string \<times> pyvalue) list \<Rightarrow> string \<Rightarrow> world \<Rightarrow> (py_error + unit) \<times> world" where
  "save_result data out_file w = (let df = DataFrame [data] in to_csv df out_file w)"

text \<open>
  The loop over the devices:
  \<^verbatim>\<open>m = 0;  for i in range(torch.cuda.device_count()): m += torch.cuda.max_memory_allocated(i)\<close>
\<close>

definition total_memory :: "env \<Rightarrow> int" where
  "total_memory e = fold (\<lambda>i m. m + int (max_memory_allocated e i)) [0..<device_count e] 0"

text \<open>The dictionary \<^verbatim>\<open>data\<close>, in the order of its keys.\<close>

definition result_data :: "benchmark \<Rightarrow> int \<Rightarrow> int \<Rightarrow> rat \<Rightarrow> rat \<Rightarrow> (string \<times> pyvalue) list" where
  "result_data self batch_size context_length tokens_per_second max_gpu_memory_cost_gb =
     [(''model_id'', case model_id self of None \<Rightarrow> PNone | Some s \<Rightarrow> PStr s),
      (''batch_size'', PInt batch_size),
      (''context_length_per_experiment'', PInt context_length),
      (''generate_length_per_experiment'', PInt GENERATE_LENGTH_PER_EXPERIMENT),
      (''use_flash_attn'', PBool USE_FLASH_ATTN),
      (''comment'', PStr COMMENT),
      (''tokens_per_second'', PFloat (py_round tokens_per_second 4)),
      (''max_gpu_memory_cost_gb'', PFloat (py_round max_gpu_memory_cost_gb 4))]"

text \<open>
  The name of the file:
  \<^verbatim>\<open>f"{self.model_id.replace('/', '__')}_context_length-{context_length}_{timestamp}.csv"\<close>
\<close>

definition out_file_name :: "string \<Rightarrow> int \<Rightarrow> string \<Rightarrow> string" where
  "out_file_name mid context_length timestamp =
     str_replace CHR ''/'' ''__'' mid @ ''_context_length-'' @ str_int context_length
       @ ''_'' @ timestamp @ ''.csv''"

text \<open>
  The end of \<^verbatim>\<open>run\<close>: the path of the file, the directory, the file. A \<open>model_id\<close>
  that is \<^verbatim>\<open>None\<close> has no \<^verbatim>\<open>replace\<close>.
\<close>

definition dump_results :: "env \<Rightarrow> benchmark \<Rightarrow> int \<Rightarrow> (string \<times> pyvalue) list \<Rightarrow> world \<Rightarrow> (py_error + string) \<times> world" where
  "dump_results e self context_length data w =
     (let timestamp = strftime (clock_now e)
      in case model_id self of
           None \<Rightarrow> (Inl AttributeError, w)
         | Some mid \<Rightarrow>
             (let out_file = path_join (outputs_dir self) (out_file_name mid context_length timestamp);
                  out_dir = dirname out_file
              in case makedirs out_dir True w of
                   (Inl err, w1) \<Rightarrow> (Inl err, w1)
                 | (Inr u, w1) \<Rightarrow>
                     (case save_result data out_file w1 of
                        (Inl err, w2) \<Rightarrow> (Inl err, w2)
                      | (Inr u', w2) \<Rightarrow> (Inr out_file, w2))))"

text \<open>
  The start of \<^verbatim>\<open>run\<close>: the two assignments to the generation configuration, and the
  batch \<^verbatim>\<open>[context_str for _ in range(batch_size)]\<close>.
\<close>

definition assign_generation_config :: "benchmark \<Rightarrow> int \<Rightarrow> benchmark" where
  "assign_generation_config self context_length =
     self\<lparr>generation_config := (generation_config self)
            \<lparr>min_length := GENERATE_LENGTH_PER_EXPERIMENT + context_length,
             max_new_tokens := Some GENERATE_LENGTH_PER_EXPERIMENT\<rparr>\<rparr>"

definition prepare_inputs :: "int \<Rightarrow> int \<Rightarrow> string list" where
  "prepare_inputs batch_size context_length =
     (let context_str = str_repeat DUMMY_INPUT context_length
      in replicate (nat batch_size) context_str)"

text \<open>
  \<^verbatim>\<open>run\<close>: the outcome is the path of the file or the exception; the instance comes
  back with its generation configuration assigned, and the state with what was written.
\<close>

definition run :: "env \<Rightarrow> benchmark \<Rightarrow> int \<Rightarrow> world \<Rightarrow> (py_error + string) \<times> benchmark \<times> world" where
  "run e self0 context_length w =
     (let self = assign_generation_config self0 context_length;
          batch_size = BATCH_SIZE
      in case tokenizer self (prepare_inputs batch_size context_length) of
           Inl err \<Rightarrow> (Inl err, self, w)
         | Inr inputs \<Rightarrow>
             if int (snd inputs) \<noteq> context_length then (Inl AssertionError, self, w)
             else if int (fst inputs) \<noteq> batch_size then (Inl AssertionError, self, w)
             else
               (case model self inputs (generation_config self) of
                  Inl err \<Rightarrow> (Inl err, self, w)
                | Inr pred \<Rightarrow>
                    (let time_cost = binary64 (time_end e - time_start e)
                     in if int (snd pred) \<noteq> min_length (generation_config self)
                        then (Inl AssertionError, self, w)
                        else
                          (let m = total_memory e;
                               max_gpu_memory_cost = max 0 m
                           in if time_cost = 0 then (Inl ZeroDivisionError, self, w)
                              else
                                (let tokens_per_second = binary64 (of_int GENERATE_LENGTH_PER_EXPERIMENT / time_cost);
                                     max_gpu_memory_cost_gb = of_int max_gpu_memory_cost / 1024 / 1024 / 1024;
                                     data = result_data self batch_size context_length
                                              tokens_per_second max_gpu_memory_cost_gb
                                 in case dump_results e self context_length data w of
                                      (r, w') \<Rightarrow> (r, self, w'))))))"

subsection \<open>The command line\<close>

text \<open>The five \<^verbatim>\<open>add_argument\<close> calls: option string, what is stored, default.\<close>

datatype arg_kind = StoreStr | StoreInt | StoreTrue

record argument =
  option_string :: string
  kind :: arg_kind
  default_value :: pyvalue

definition parser_arguments :: "argument list" where
  "parser_arguments =
     [\<lparr>option_string = ''--model_id'', kind = StoreStr, default_value = PNone\<rparr>,
      \<lparr>option_string = ''--context_length'', kind = StoreInt, default_value = PNone\<rparr>,
      \<lparr>option_string = ''--gpus'', kind = StoreStr, default_value = PNone\<rparr>,
      \<lparr>option_string = ''--use_modelscope'', kind = StoreTrue, default_value = PBool False\<rparr>,
      \<lparr>option_string = ''--outputs_dir'', kind = StoreStr, default_value = PStr ''outputs/transformer''\<rparr>]"

text \<open>
  The attribute an option is stored under: the option string without its dashes, with
  \<^verbatim>\<open>-\<close> replaced by \<^verbatim>\<open>_\<close>.
\<close>

definition dest :: "argument \<Rightarrow> string" where
  "dest a = str_replace CHR ''-'' ''_'' (dropWhile (\<lambda>c. c = CHR ''-'') (option_string a))"


text \<open>
  The attributes of the namespace. At the start every option has its default; an
  occurrence stores under the attribute of its option: the string, the converted integer,
  or \<open>True\<close> for the switch. An option string that was not declared, a value without
  converted integer, a missing argument and an argument given to the switch end the program
  with exit status 2.
\<close>

type_synonym attributes = "string \<Rightarrow> pyvalue option"

definition defaults :: "argument list \<Rightarrow> attributes" where
  "defaults parser = map_of (map (\<lambda>a. (dest a, default_value a)) parser)"




text \<open>
  What \<^verbatim>\<open>main\<close> reads from the namespace (lines 154 to 158), as the values
  \<^verbatim>\<open>parse_args\<close> stores: a string option is a string or \<^verbatim>\<open>None\<close>, the integer option
  an integer or \<^verbatim>\<open>None\<close>, the switch a truth value. A namespace without one of the
  attributes raises \<^verbatim>\<open>AttributeError\<close>. A value of another type does not come out of
  \<^verbatim>\<open>parse_args\<close>; the readers answer \<^verbatim>\<open>TypeError\<close> for it.
\<close>

record namespace =
  arg_model_id :: "string option"
  arg_context_length :: "int option"
  arg_gpus :: "string option"
  arg_use_modelscope :: bool
  arg_outputs_dir :: string

definition attr_str_or_none :: "attributes \<Rightarrow> string \<Rightarrow> py_error + string option" where
  "attr_str_or_none ns k =
     (case ns k of
        None \<Rightarrow> Inl AttributeError
      | Some (PStr s) \<Rightarrow> Inr (Some s)
      | Some PNone \<Rightarrow> Inr None
      | Some _ \<Rightarrow> Inl TypeError)"

definition attr_int_or_none :: "attributes \<Rightarrow> string \<Rightarrow> py_error + int option" where
  "attr_int_or_none ns k =
     (case ns k of
        None \<Rightarrow> Inl AttributeError
      | Some (PInt i) \<Rightarrow> Inr (Some i)
      | Some PNone \<Rightarrow> Inr None
      | Some _ \<Rightarrow> Inl TypeError)"

definition attr_bool :: "attributes \<Rightarrow> string \<Rightarrow> py_error + bool" where
  "attr_bool ns k =
     (case ns k of
        None \<Rightarrow> Inl AttributeError
      | Some (PBool b) \<Rightarrow> Inr b
      | Some _ \<Rightarrow> Inl TypeError)"

definition attr_str :: "attributes \<Rightarrow> string \<Rightarrow> py_error + string" where
  "attr_str ns k =
     (case ns k of
        None \<Rightarrow> Inl AttributeError
      | Some (PStr s) \<Rightarrow> Inr s
      | Some _ \<Rightarrow> Inl TypeError)"

definition read_namespace :: "attributes \<Rightarrow> py_error + namespace" where
  "read_namespace ns =
     (case attr_str_or_none ns ''model_id'' of
        Inl err \<Rightarrow> Inl err
      | Inr mid \<Rightarrow>
     (case attr_str_or_none ns ''gpus'' of
        Inl err \<Rightarrow> Inl err
      | Inr envs \<Rightarrow>
     (case attr_int_or_none ns ''context_length'' of
        Inl err \<Rightarrow> Inl err
      | Inr context_length \<Rightarrow>
     (case attr_bool ns ''use_modelscope'' of
        Inl err \<Rightarrow> Inl err
      | Inr use_modelscope \<Rightarrow>
     (case attr_str ns ''outputs_dir'' of
        Inl err \<Rightarrow> Inl err
      | Inr out_dir \<Rightarrow>
          Inr \<lparr>arg_model_id = mid, arg_context_length = context_length, arg_gpus = envs,
               arg_use_modelscope = use_modelscope, arg_outputs_dir = out_dir\<rparr>)))))"



subsection \<open>Reading the state\<close>

text \<open>What opening \<open>p\<close> for reading finds: the content of the file, if \<open>p\<close> names one.\<close>

definition file_at :: "world \<Rightarrow> string \<Rightarrow> file_content option" where
  "file_at w p =
     (case lookup_path w p of
        Inl _ \<Rightarrow> None
      | Inr c \<Rightarrow> (case fs w c of Some (File x) \<Rightarrow> Some x | _ \<Rightarrow> None))"

text \<open>The value a frame holds in its first row under a column label.\<close>

definition cell :: "dataframe \<Rightarrow> string \<Rightarrow> pyvalue option" where
  "cell df col =
     (case rows df of
        [] \<Rightarrow> None
      | r # _ \<Rightarrow> (case map_of (zip (columns df) r) col of Some (Some v) \<Rightarrow> Some v | _ \<Rightarrow> None))"

text \<open>The table a run wrote to \<open>p\<close>, and a value of its row.\<close>

definition result_frame :: "world \<Rightarrow> string \<Rightarrow> dataframe option" where
  "result_frame w p = (case file_at w p of Some (CsvText df) \<Rightarrow> Some df | _ \<Rightarrow> None)"

definition result_cell :: "world \<Rightarrow> string \<Rightarrow> string \<Rightarrow> pyvalue option" where
  "result_cell w p col = (case result_frame w p of Some df \<Rightarrow> cell df col | None \<Rightarrow> None)"


subsection \<open>An example execution\<close>

text \<open>
  An execution to evaluate the definitions on: a tokenizer that gives one token for three
  bytes, a model that generates up to the minimal length, ModelScope installed and
  HuggingFace not, three seconds between the two readings of the clock, two devices.
\<close>

definition example_tokenizer :: tokenizer where
  "example_tokenizer batch =
     (case batch of [] \<Rightarrow> Inr (0, 0) | s # _ \<Rightarrow> Inr (length batch, length s div 3))"

definition example_model :: causal_lm where
  "example_model inputs gc = Inr (fst inputs, nat (min_length gc))"

definition example_config :: generation_config where
  "example_config = \<lparr>min_length = 0, max_new_tokens = None\<rparr>"

definition example_env :: env where
  "example_env =
     \<lparr>find_spec = (\<lambda>m. m = ''modelscope''),
      import_hub = (\<lambda>_. None),
      snapshot_download = (\<lambda>_ _. Inr ''/cache/Q/m''),
      tokenizer_from_pretrained = (\<lambda>_ _. Inr example_tokenizer),
      model_from_pretrained = (\<lambda>_ _ _ _ _. Inr example_model),
      config_from_pretrained = (\<lambda>_ _. Inr example_config),
      time_start = 100, time_end = 103,
      device_count = 2,
      max_memory_allocated = (\<lambda>i. if i = 0 then 1073741824 else 536870912),
      clock_now = \<lparr>dt_month = 11, dt_day = 4, dt_hour = 7, dt_minute = 26, dt_second = 5\<rparr>\<rparr>"

definition example_world :: world where
  "example_world =
     \<lparr>rng_seed = None, cuda_visible_devices = None, downloaded = [],
      fs = [[] \<mapsto> Dir, [''home''] \<mapsto> Dir], cwd = [''home'']\<rparr>"

definition example_benchmark :: benchmark where
  "example_benchmark =
     \<lparr>model_id = Some ''Q/m'', outputs_dir = ''out'',
      tokenizer = example_tokenizer, model = example_model,
      generation_config = example_config\<rparr>"

definition example_args :: namespace where
  "example_args =
     \<lparr>arg_model_id = Some ''Q/m'', arg_context_length = Some 2, arg_gpus = Some ''0'',
      arg_use_modelscope = True, arg_outputs_dir = ''out''\<rparr>"



text \<open>The namespace of the example command line.\<close>

definition example_namespace :: attributes where
  "example_namespace =
     (defaults parser_arguments)
       (''model_id'' \<mapsto> PStr ''Q/m'', ''context_length'' \<mapsto> PInt 2, ''gpus'' \<mapsto> PStr ''0'',
        ''use_modelscope'' \<mapsto> PBool True, ''outputs_dir'' \<mapsto> PStr ''out'')"

text \<open>What the example execution writes, and the state it ends in.\<close>

definition example_out_file :: string where
  "example_out_file = ''out/Q__m_context_length-2_1104072605.csv''"

definition example_frame :: dataframe where
  "example_frame =
     \<lparr>columns = [''model_id'', ''batch_size'', ''context_length_per_experiment'',
                 ''generate_length_per_experiment'', ''use_flash_attn'', ''comment'',
                 ''tokens_per_second'', ''max_gpu_memory_cost_gb''],
      rows = [[Some (PStr ''Q/m''), Some (PInt 1), Some (PInt 2), Some (PInt 2048),
               Some (PBool True), Some (PStr ''default''),
               Some (PFloat (6826667 / 10000)), Some (PFloat (3 / 2))]]\<rparr>"

definition example_final_world :: world where
  "example_final_world =
     example_world\<lparr>fs := (fs example_world)
       ([''home'', ''out''] \<mapsto> Dir,
        [''home'', ''out'', ''Q__m_context_length-2_1104072605.csv''] \<mapsto> File (CsvText example_frame))\<rparr>"


definition example_nested_world :: world where
  "example_nested_world =
     example_world\<lparr>fs := (fs example_world)
       ([''home'', ''outputs''] \<mapsto> Dir, [''home'', ''outputs'', ''transformer''] \<mapsto> Dir)\<rparr>"

section \<open>Properties\<close>

subsection \<open>Rounding to binary64\<close>

lemma bitlen_powi:
  assumes "0 < n"
  shows "(2::rat) powi (bitlen n - 1) \<le> of_int n" "of_int n < (2::rat) powi (bitlen n)"
proof -
  from bitlen_bounds [OF assms] have a: "(2::int) ^ nat (bitlen n - 1) \<le> n" and b: "n < 2 ^ nat (bitlen n)"
    by simp_all
  have pos: "1 \<le> bitlen n"
    using assms by (auto simp: bitlen_alt_def)
  from a have "(of_int (2 ^ nat (bitlen n - 1)) :: rat) \<le> of_int n"
    by (simp only: of_int_le_iff)
  with pos show "(2::rat) powi (bitlen n - 1) \<le> of_int n"
    by (simp add: power_int_def)
  from b have "(of_int n :: rat) < of_int (2 ^ nat (bitlen n))"
    by (simp only: of_int_less_iff)
  with pos show "of_int n < (2::rat) powi (bitlen n)"
    by (simp add: power_int_def)
qed

lemma ilog2_bounds:
  assumes "x \<noteq> 0"
  shows "2 powi (ilog2 x) \<le> \<bar>x\<bar>" "\<bar>x\<bar> < 2 powi (ilog2 x + 1)"
proof -
  obtain p q where pq: "quotient_of \<bar>x\<bar> = (p, q)"
    by (cases "quotient_of \<bar>x\<bar>")
  then have q: "0 < q" and x: "\<bar>x\<bar> = of_int p / of_int q"
    by (auto simp: quotient_of_denom_pos quotient_of_div)
  from assms have "0 < \<bar>x\<bar>"
    by simp
  with x q have p: "0 < p"
    by (simp add: zero_less_divide_iff)
  let ?k = "bitlen p - bitlen q"
  have up: "\<bar>x\<bar> < 2 powi (?k + 1)"
  proof -
    have "\<bar>x\<bar> * of_int q = of_int p"
      using x q by simp
    also have "\<dots> < 2 powi (bitlen p)"
      by (rule bitlen_powi [OF p])
    also have "\<dots> = 2 powi (?k + 1) * 2 powi (bitlen q - 1)"
      by (simp add: power_int_add [symmetric])
    also have "\<dots> \<le> 2 powi (?k + 1) * of_int q"
      by (intro mult_left_mono bitlen_powi [OF q]) simp
    finally show ?thesis
      using q by simp
  qed
  have low: "2 powi (?k - 1) \<le> \<bar>x\<bar>"
  proof -
    have "2 powi (?k - 1) * of_int q \<le> 2 powi (?k - 1) * (2::rat) powi (bitlen q)"
      by (intro mult_left_mono less_imp_le bitlen_powi [OF q]) simp
    also have "\<dots> = 2 powi (bitlen p - 1)"
      by (simp add: power_int_add [symmetric])
    also have "\<dots> \<le> of_int p"
      by (rule bitlen_powi [OF p])
    also have "\<dots> = \<bar>x\<bar> * of_int q"
      using x q by simp
    finally show ?thesis
      using q by simp
  qed
  show "2 powi (ilog2 x) \<le> \<bar>x\<bar>"
    using low by (simp add: ilog2_def pq Let_def)
  show "\<bar>x\<bar> < 2 powi (ilog2 x + 1)"
    using up by (auto simp: ilog2_def pq Let_def not_le)
qed


lemma round_half_even_nearest: "\<bar>of_int (round_half_even y) - y\<bar> \<le> 1 / 2"
proof -
  have "of_int \<lfloor>y\<rfloor> \<le> y" "y < of_int \<lfloor>y\<rfloor> + 1"
    by linarith+
  then show ?thesis
    by (auto simp: round_half_even_def Let_def abs_le_iff)
qed

lemma binary64_nearest:
  assumes "x \<noteq> 0"
  shows "\<bar>binary64 x - x\<bar> \<le> 2 powi (ilog2 x - 53)"
proof -
  let ?e = "ilog2 x - 52"
  let ?u = "(2::rat) powi ?e"
  have pos: "0 < ?u"
    by (simp add: zero_less_power_int)
  have "binary64 x - x = (of_int (round_half_even (x / ?u)) - x / ?u) * ?u"
    using assms pos by (simp add: binary64_def Let_def algebra_simps)
  then have "\<bar>binary64 x - x\<bar> = \<bar>of_int (round_half_even (x / ?u)) - x / ?u\<bar> * ?u"
    using pos by (simp add: abs_mult)
  also have "\<dots> \<le> 1 / 2 * ?u"
    using pos by (intro mult_right_mono round_half_even_nearest) simp
  also have "\<dots> = 2 powi (ilog2 x - 53)"
  proof -
    have "(2::rat) powi (ilog2 x - 53 + 1) = 2 powi (ilog2 x - 53) * 2"
      by (subst power_int_add) simp_all
    then show ?thesis
      by simp
  qed
  finally show ?thesis .
qed

lemma binary64_zero_iff: "binary64 x = 0 \<longleftrightarrow> x = 0"
proof (cases "x = 0")
  case True
  then show ?thesis
    by (simp add: binary64_def)
next
  case False
  have "(2::rat) powi (ilog2 x - 53) < 2 powi (ilog2 x)"
    by (rule power_int_strict_increasing) simp_all
  also have "\<dots> \<le> \<bar>x\<bar>"
    by (rule ilog2_bounds(1) [OF False])
  finally have "\<bar>binary64 x - x\<bar> < \<bar>x\<bar>"
    using binary64_nearest [OF False] by simp
  then have "binary64 x \<noteq> 0"
    by auto
  with False show ?thesis
    by simp
qed

subsection \<open>Paths\<close>

lemma split_sep_nonempty: "split_sep p \<noteq> []"
  by (induction p) (auto split: list.splits)

lemma split_sep_single: "split_sep p = [[]] \<longleftrightarrow> p = []"
  by (cases p) (auto simp: split_sep_nonempty split: list.splits)

lemma last_split_sep: "last (split_sep p) = [] \<longleftrightarrow> p = [] \<or> last p = CHR ''/''"
  by (induction p) (auto simp: split_sep_nonempty split_sep_single split: list.splits)

lemma rstrip_sep_id: "p \<noteq> [] \<Longrightarrow> last p \<noteq> CHR ''/'' \<Longrightarrow> rstrip_sep p = p"
  by (cases p rule: rev_cases) (auto simp: rstrip_sep_def)

lemma digit_char_no_sep: "n < 10 \<Longrightarrow> digit_char n \<noteq> CHR ''/''"
proof -
  assume "n < 10"
  then have "digit_char n \<in> set ''0123456789''"
    unfolding digit_char_def by (intro nth_mem) simp
  then show ?thesis by auto
qed

lemma str_nat_no_sep: "CHR ''/'' \<notin> set (str_nat n)"
proof (induction n rule: str_nat.induct)
  case (1 n)
  show ?case
  proof (cases "n < 10")
    case True
    then show ?thesis
      using digit_char_no_sep [of n] by (subst str_nat.simps) auto
  next
    case False
    moreover have "digit_char (n mod 10) \<noteq> CHR ''/''"
      by (rule digit_char_no_sep) simp
    ultimately show ?thesis
      using 1 by (subst str_nat.simps) auto
  qed
qed

lemma str_int_no_sep: "CHR ''/'' \<notin> set (str_int i)"
  by (simp add: str_int_def str_nat_no_sep)

lemma strftime_no_sep: "CHR ''/'' \<notin> set (strftime d)"
  by (simp add: strftime_def pad2_def str_nat_no_sep)

lemma str_replace_no_sep: "CHR ''/'' \<notin> set (str_replace CHR ''/'' ''__'' s)"
  by (induction s) (auto simp: str_replace_def)

lemma out_file_name_no_sep: "CHR ''/'' \<notin> set (out_file_name mid L (strftime d))"
  by (simp add: out_file_name_def str_replace_no_sep str_int_no_sep strftime_no_sep)

lemma out_file_name_nonempty: "out_file_name mid L ts \<noteq> []"
  by (simp add: out_file_name_def)

lemma split_no_sep:
  assumes "CHR ''/'' \<notin> set f"
  shows "takeWhile (\<lambda>c. c \<noteq> CHR ''/'') (rev f @ CHR ''/'' # xs) = rev f"
    and "dropWhile (\<lambda>c. c \<noteq> CHR ''/'') (rev f @ CHR ''/'' # xs) = CHR ''/'' # xs"
    and "takeWhile (\<lambda>c. c \<noteq> CHR ''/'') (rev f) = rev f"
    and "dropWhile (\<lambda>c. c \<noteq> CHR ''/'') (rev f) = []"
  using assms by (auto simp: takeWhile_append dropWhile_append takeWhile_eq_all_conv)

lemma path_split_join:
  assumes "CHR ''/'' \<notin> set f"
  shows "path_split (path_join d f) =
           (if list_all (\<lambda>c. c = CHR ''/'') d then d else rstrip_sep d, f)"
proof -
  from assms have hd: "\<not> (f \<noteq> [] \<and> hd f = CHR ''/'')"
    by (cases f) auto
  show ?thesis
  proof (cases "d = []")
    case True
    with hd assms show ?thesis
      by (auto simp: path_join_def path_split_def split_no_sep)
  next
    case False
    then obtain d' c where d: "d = d' @ [c]"
      by (cases d rule: rev_cases) auto
    show ?thesis
    proof (cases "c = CHR ''/''")
      case True
      with hd assms d show ?thesis
        by (auto simp: path_join_def path_split_def split_no_sep)
    next
      case False
      with hd assms d show ?thesis
        by (auto simp: path_join_def path_split_def split_no_sep rstrip_sep_def)
    qed
  qed
qed

subsection \<open>The file system\<close>

lemma walk_append:
  "walk t cur (xs @ ys) = (case walk t cur xs of Inl e \<Rightarrow> Inl e | Inr c \<Rightarrow> walk t c ys)"
  by (induction xs arbitrary: cur) (auto split: option.splits node.splits)

lemma walk_update:
  "walk t cur cs = Inr d \<Longrightarrow> t k \<noteq> Some Dir \<Longrightarrow> walk (t(k \<mapsto> v)) cur cs = Inr d"
proof (induction cs arbitrary: cur)
  case Nil
  then show ?case by simp
next
  case (Cons c cs)
  from Cons.prems have dir: "t cur = Some Dir"
    by (auto split: option.splits node.splits)
  with Cons.prems have "cur \<noteq> k" by auto
  with dir Cons show ?case by simp
qed

lemma walk_errors: "walk t cur cs = Inl err \<Longrightarrow> err = FileNotFoundError \<or> err = NotADirectoryError"
  by (induction cs arbitrary: cur) (auto split: option.splits node.splits)

lemma parent_and_leaf_errors:
  "parent_and_leaf w p = Inl err \<Longrightarrow> err = FileNotFoundError \<or> err = NotADirectoryError"
  by (auto simp: parent_and_leaf_def Let_def dest: walk_errors split: sum.splits option.splits node.splits)

lemma write_file_effect:
  assumes "write_file p c w = Inr w'"
  shows "\<exists>loc. lookup_path w' p = Inr loc \<and> fs w loc \<noteq> Some Dir \<and>
           w' = w\<lparr>fs := (fs w)(loc \<mapsto> File c)\<rparr>"
proof -
  from assms have p: "p \<noteq> []" "last p \<noteq> CHR ''/''"
    by (auto simp: write_file_def split: if_splits sum.splits option.splits node.splits)
  with assms obtain d leaf where pl: "parent_and_leaf w p = Inr (d, leaf)"
    and leaf: "leaf \<noteq> ''.''" "leaf \<noteq> ''..''" "fs w (d @ [leaf]) \<noteq> Some Dir"
    and w': "w' = w\<lparr>fs := (fs w)(d @ [leaf] \<mapsto> File c)\<rparr>"
    by (auto simp: write_file_def split: if_splits sum.splits)
  from pl p have wk: "walk (fs w) (start_dir w p) (butlast (split_sep p)) = Inr d"
    and d: "fs w d = Some Dir" and leaf_eq: "leaf = last (split_sep p)"
    by (auto simp: parent_and_leaf_def rstrip_sep_id Let_def split: sum.splits option.splits node.splits)
  from leaf_eq p have leaf_ne: "leaf \<noteq> []"
    by (simp add: last_split_sep)
  let ?t = "(fs w)(d @ [leaf] \<mapsto> File c)"
  have "walk ?t (start_dir w p) (butlast (split_sep p)) = Inr d"
    using wk leaf(3) by (rule walk_update)
  moreover have "?t d = Some Dir"
    using d by simp
  ultimately have "walk ?t (start_dir w p) (butlast (split_sep p) @ [leaf]) = Inr (d @ [leaf])"
    using leaf leaf_ne by (simp add: walk_append)
  moreover have "butlast (split_sep p) @ [leaf] = split_sep p"
    using leaf_eq by (simp add: split_sep_nonempty)
  ultimately have "walk ?t (start_dir w p) (split_sep p) = Inr (d @ [leaf])"
    by simp
  then have "lookup_path w' p = Inr (d @ [leaf])"
    using p by (auto simp: lookup_path_def w' start_dir_def split: if_splits)
  with leaf(3) w' show ?thesis
    by blast
qed

lemma write_file_read: "write_file p c w = Inr w' \<Longrightarrow> file_at w' p = Some c"
  by (drule write_file_effect) (auto simp: file_at_def)

lemma write_file_errors:
  "write_file p c w = Inl err \<Longrightarrow>
     err \<in> {FileNotFoundError, NotADirectoryError, IsADirectoryError}"
  by (auto simp: write_file_def dest: parent_and_leaf_errors
      split: if_splits sum.splits option.splits node.splits)






lemma mkdir_errors:
  "mkdir p w = Inl err \<Longrightarrow> err \<in> {FileNotFoundError, NotADirectoryError, FileExistsError}"
  by (auto simp: mkdir_def dest: parent_and_leaf_errors split: if_splits sum.splits)

lemma mkdir_leaf_errors:
  "mkdir_leaf name ok w = (Inl err, w') \<Longrightarrow> err \<in> {FileNotFoundError, NotADirectoryError, FileExistsError}"
  by (auto simp: mkdir_leaf_def dest: mkdir_errors split: if_splits sum.splits)

lemma makedirs_errors:
  "makedirs name ok w = (Inl err, w') \<Longrightarrow> err \<in> {FileNotFoundError, NotADirectoryError, FileExistsError}"
proof (induction name ok w arbitrary: err w' rule: makedirs.induct)
  case (1 name exist_ok w)
  show ?case
  proof (cases "makedirs_head name \<noteq> [] \<and> makedirs_tail name \<noteq> [] \<and> \<not> path_exists w (makedirs_head name)")
    case True
    obtain r1 w1 where rec: "makedirs (makedirs_head name) exist_ok w = (r1, w1)"
      by (cases "makedirs (makedirs_head name) exist_ok w")
    from "1.prems" True rec
    have "(r1 = Inl err \<and> w' = w1) \<or> mkdir_leaf name exist_ok w1 = (Inl err, w')"
      by (subst (asm) makedirs.simps) (auto split: sum.splits if_splits)
    with "1.IH" [OF True] rec show ?thesis
      by (auto dest: mkdir_leaf_errors)
  next
    case False
    with "1.prems" have "mkdir_leaf name exist_ok w = (Inl err, w')"
      by (subst (asm) makedirs.simps) auto
    then show ?thesis
      by (rule mkdir_leaf_errors)
  qed
qed

lemma makedirs_empty: "makedirs [] ok w = (Inl FileNotFoundError, w)"
  by (simp add: makedirs.simps [of "[]"] makedirs_head_def makedirs_tail_def path_split_def
      mkdir_leaf_def mkdir_def isdir_def lookup_path_def)

subsection \<open>The steps of a run\<close>

lemma total_memory_sum: "total_memory e = int (\<Sum>i<device_count e. max_memory_allocated e i)"
proof -
  have "fold (\<lambda>i m. m + int (f i)) [0..<n] a = a + int (\<Sum>i<n. f i)" for f :: "nat \<Rightarrow> nat" and n a
    by (induction n) simp_all
  then show ?thesis
    by (simp add: total_memory_def)
qed

lemma run_success:
  assumes "run e self0 L w = (Inr p, self', w')"
  shows "self' = assign_generation_config self0 L"
    and "\<exists>inputs pred.
           tokenizer self0 (prepare_inputs BATCH_SIZE L) = Inr inputs \<and>
           int (snd inputs) = L \<and> int (fst inputs) = BATCH_SIZE \<and>
           model self0 inputs (generation_config self') = Inr pred \<and>
           int (snd pred) = GENERATE_LENGTH_PER_EXPERIMENT + L"
    and "time_end e \<noteq> time_start e"
    and "dump_results e self' L
           (result_data self' BATCH_SIZE L
              (binary64 (of_int GENERATE_LENGTH_PER_EXPERIMENT / binary64 (time_end e - time_start e)))
              (of_int (max 0 (total_memory e)) / 1024 / 1024 / 1024)) w = (Inr p, w')"
  using assms
  by (auto simp: run_def Let_def assign_generation_config_def binary64_zero_iff
      split: sum.splits if_splits prod.splits)

lemma dump_results_success:
  assumes "dump_results e self L data w = (Inr p, w')"
  shows "\<exists>mid w1. model_id self = Some mid \<and>
           p = path_join (outputs_dir self) (out_file_name mid L (strftime (clock_now e))) \<and>
           makedirs (dirname p) True w = (Inr (), w1) \<and>
           write_file p (CsvText (DataFrame [data])) w1 = Inr w'"
  using assms
  by (auto simp: dump_results_def Let_def save_result_def to_csv_def
      split: option.splits sum.splits prod.splits)

lemma dump_results_errors:
  assumes "dump_results e self L data w = (Inl err, w')"
  shows "err \<in> {AttributeError, FileNotFoundError, NotADirectoryError, FileExistsError, IsADirectoryError}"
proof (cases "model_id self")
  case None
  with assms show ?thesis
    by (simp add: dump_results_def)
next
  case (Some mid)
  let ?p = "path_join (outputs_dir self) (out_file_name mid L (strftime (clock_now e)))"
  obtain r1 w1 where mk: "makedirs (dirname ?p) True w = (r1, w1)"
    by (cases "makedirs (dirname ?p) True w")
  show ?thesis
  proof (cases r1)
    case (Inl err1)
    with assms Some mk have "err = err1"
      by (simp add: dump_results_def)
    with makedirs_errors mk Inl show ?thesis
      by blast
  next
    case (Inr u)
    with assms Some mk have "write_file ?p (CsvText (DataFrame [data])) w1 = Inl err"
      by (auto simp: dump_results_def save_result_def to_csv_def Let_def split: sum.splits)
    then show ?thesis
      by (auto dest: write_file_errors)
  qed
qed

lemma DataFrame_result_data:
  "DataFrame [result_data self b L t g] =
     \<lparr>columns = [''model_id'', ''batch_size'', ''context_length_per_experiment'',
                 ''generate_length_per_experiment'', ''use_flash_attn'', ''comment'',
                 ''tokens_per_second'', ''max_gpu_memory_cost_gb''],
      rows = [[Some (case model_id self of None \<Rightarrow> PNone | Some s \<Rightarrow> PStr s),
               Some (PInt b), Some (PInt L), Some (PInt GENERATE_LENGTH_PER_EXPERIMENT),
               Some (PBool USE_FLASH_ATTN), Some (PStr COMMENT),
               Some (PFloat (py_round t 4)), Some (PFloat (py_round g 4))]]\<rparr>"
  by (simp add: DataFrame_def result_data_def)

lemma cells_result_data:
  "cell (DataFrame [result_data self b L t g]) ''batch_size'' = Some (PInt b)"
  "cell (DataFrame [result_data self b L t g]) ''tokens_per_second'' = Some (PFloat (py_round t 4))"
  "cell (DataFrame [result_data self b L t g]) ''max_gpu_memory_cost_gb'' = Some (PFloat (py_round g 4))"
  by (simp_all add: DataFrame_result_data cell_def)

lemma run_result_frame:
  assumes "run e self0 L w = (Inr p, self', w')"
  shows "result_frame w' p =
           Some (DataFrame [result_data self' BATCH_SIZE L
              (binary64 (of_int GENERATE_LENGTH_PER_EXPERIMENT / binary64 (time_end e - time_start e)))
              (of_int (max 0 (total_memory e)) / 1024 / 1024 / 1024)])"
proof -
  from run_success(4) [OF assms] dump_results_success
  obtain w1 where "write_file p (CsvText (DataFrame [result_data self' BATCH_SIZE L
              (binary64 (of_int GENERATE_LENGTH_PER_EXPERIMENT / binary64 (time_end e - time_start e)))
              (of_int (max 0 (total_memory e)) / 1024 / 1024 / 1024)])) w1 = Inr w'"
    by blast
  then show ?thesis
    by (simp add: result_frame_def write_file_read)
qed




subsection \<open>The command line\<close>






lemma read_namespace_Inr:
  "read_namespace ns = Inr args \<longleftrightarrow>
     attr_str_or_none ns ''model_id'' = Inr (arg_model_id args) \<and>
     attr_str_or_none ns ''gpus'' = Inr (arg_gpus args) \<and>
     attr_int_or_none ns ''context_length'' = Inr (arg_context_length args) \<and>
     attr_bool ns ''use_modelscope'' = Inr (arg_use_modelscope args) \<and>
     attr_str ns ''outputs_dir'' = Inr (arg_outputs_dir args)"
  by (cases args) (auto simp: read_namespace_def split: sum.splits)



lemma attr_update:
  "attr_str_or_none (ns(k \<mapsto> v)) k' =
     (if k' = k then (case v of PStr s \<Rightarrow> Inr (Some s) | PNone \<Rightarrow> Inr None | _ \<Rightarrow> Inl TypeError)
      else attr_str_or_none ns k')"
  "attr_int_or_none (ns(k \<mapsto> v)) k' =
     (if k' = k then (case v of PInt i \<Rightarrow> Inr (Some i) | PNone \<Rightarrow> Inr None | _ \<Rightarrow> Inl TypeError)
      else attr_int_or_none ns k')"
  "attr_bool (ns(k \<mapsto> v)) k' =
     (if k' = k then (case v of PBool b \<Rightarrow> Inr b | _ \<Rightarrow> Inl TypeError) else attr_bool ns k')"
  "attr_str (ns(k \<mapsto> v)) k' =
     (if k' = k then (case v of PStr s \<Rightarrow> Inr s | _ \<Rightarrow> Inl TypeError) else attr_str ns k')"
  by (simp_all add: attr_str_or_none_def attr_int_or_none_def attr_bool_def attr_str_def)




subsection \<open>The example execution\<close>

lemma example_strftime: "strftime (clock_now example_env) = ''1104072605''"
  by (simp add: example_env_def strftime_def pad2_def str_nat.simps digit_char_def)

lemma example_path:
  "path_join ''out'' (out_file_name ''Q/m'' 2 ''1104072605'') = example_out_file"
  by (simp add: path_join_def out_file_name_def str_replace_def str_int_def str_nat.simps
      digit_char_def example_out_file_def)

lemma example_dirname: "dirname example_out_file = ''out''"
  by (simp add: dirname_def path_split_def rstrip_sep_def example_out_file_def)

lemma example_makedirs:
  "makedirs ''out'' True example_world =
     (Inr (), example_world\<lparr>fs := (fs example_world)([''home'', ''out''] \<mapsto> Dir)\<rparr>)"
  by (simp add: makedirs.simps [of "''out''"] makedirs_head_def makedirs_tail_def path_split_def
      mkdir_leaf_def mkdir_def parent_and_leaf_def rstrip_sep_def start_dir_def example_world_def)

lemma example_write:
  "write_file example_out_file (CsvText df)
     (example_world\<lparr>fs := (fs example_world)([''home'', ''out''] \<mapsto> Dir)\<rparr>) =
   Inr (example_world\<lparr>fs := (fs example_world)
       ([''home'', ''out''] \<mapsto> Dir,
        [''home'', ''out'', ''Q__m_context_length-2_1104072605.csv''] \<mapsto> File (CsvText df))\<rparr>)"
  by (simp add: write_file_def parent_and_leaf_def rstrip_sep_def start_dir_def example_world_def
      example_out_file_def)

lemma example_rates:
  "py_round (2048 / 3) 4 = 6826667 / 10000"
  "py_round (1610612736 / 1024 / 1024 / 1024) 4 = 3 / 2"
  "py_round (3 / 2) 4 = 3 / 2"
  "binary64 3 = 3"
  "py_round (binary64 (2048 / 3)) 4 = 6826667 / 10000"
  by code_simp+

lemma example_ties:
  "py_round (binary64 (2048 / binary64 327680)) 4 = 63 / 10000"
  "py_round (binary64 (2048 / binary64 1638400)) 4 = 13 / 10000"
  "py_round (binary64 (2048 / binary64 8192000)) 4 = 3 / 10000"
  "py_round (binary64 (2048 / binary64 40960000)) 4 = 1 / 10000"
  "binary64 (1 / 10) = 3602879701896397 / 36028797018963968"
  by code_simp+

lemma example_total_memory: "total_memory example_env = 1610612736"
  by (simp add: total_memory_sum example_env_def lessThan_nat_numeral lessThan_Suc)

lemma example_data:
  "DataFrame [result_data (assign_generation_config example_benchmark 2) BATCH_SIZE 2
      (binary64 (of_int GENERATE_LENGTH_PER_EXPERIMENT / binary64 (time_end example_env - time_start example_env)))
      (of_int (max 0 (total_memory example_env)) / 1024 / 1024 / 1024)] = example_frame"
  by (simp add: DataFrame_result_data example_frame_def assign_generation_config_def
      example_benchmark_def BATCH_SIZE_def GENERATE_LENGTH_PER_EXPERIMENT_def USE_FLASH_ATTN_def
      COMMENT_def example_total_memory example_rates) (simp add: example_env_def example_rates)

lemma example_dump:
  "dump_results example_env (assign_generation_config example_benchmark 2) 2 data example_world =
     (Inr example_out_file, example_world\<lparr>fs := (fs example_world)
       ([''home'', ''out''] \<mapsto> Dir,
        [''home'', ''out'', ''Q__m_context_length-2_1104072605.csv''] \<mapsto> File (CsvText (DataFrame [data])))\<rparr>)"
  by (simp add: dump_results_def example_strftime assign_generation_config_def example_benchmark_def
      example_path example_dirname example_makedirs save_result_def to_csv_def example_write)

lemma example_run:
  "run example_env example_benchmark 2 example_world =
     (Inr example_out_file, assign_generation_config example_benchmark 2, example_final_world)"
proof -
  have tok: "tokenizer (assign_generation_config example_benchmark 2) (prepare_inputs BATCH_SIZE 2) = Inr (1, 2)"
    by (simp add: assign_generation_config_def example_benchmark_def prepare_inputs_def BATCH_SIZE_def
        str_repeat_def DUMMY_INPUT_def example_tokenizer_def numeral_2_eq_2)
  have gen: "model (assign_generation_config example_benchmark 2) inputs
               (generation_config (assign_generation_config example_benchmark 2)) = Inr (fst inputs, 2050)"
    for inputs
    by (simp add: assign_generation_config_def example_benchmark_def example_model_def
        GENERATE_LENGTH_PER_EXPERIMENT_def)
  have ml: "min_length (generation_config (assign_generation_config example_benchmark 2)) = 2050"
    by (simp add: assign_generation_config_def GENERATE_LENGTH_PER_EXPERIMENT_def)
  have tc: "time_end example_env \<noteq> time_start example_env"
    by (simp add: example_env_def)
  show ?thesis
    unfolding run_def Let_def
    by (simp add: tok gen ml tc binary64_zero_iff example_dump example_final_world_def)
      (use example_data in \<open>simp add: BATCH_SIZE_def\<close>)
qed

lemma example_result_frame: "result_frame example_final_world example_out_file = Some example_frame"
  using run_result_frame [OF example_run] example_data by simp

lemma example_tokens_per_second:
  "result_cell example_final_world example_out_file ''tokens_per_second'' = Some (PFloat (6826667 / 10000))"
  by (simp add: result_cell_def example_result_frame example_frame_def cell_def)

lemma example_run_negative_any:
  "run example_env example_benchmark (- 1) w =
     (Inl AssertionError, assign_generation_config example_benchmark (- 1), w)"
proof -
  have "tokenizer (assign_generation_config example_benchmark (- 1)) (prepare_inputs BATCH_SIZE (- 1)) = Inr (1, 0)"
    by (simp add: assign_generation_config_def example_benchmark_def prepare_inputs_def BATCH_SIZE_def
        str_repeat_def example_tokenizer_def)
  then show ?thesis
    by (simp add: run_def Let_def)
qed


lemma example_makedirs_parents:
  "makedirs ''outputs/transformer'' True example_world = (Inr (), example_nested_world)"
proof -
  have split: "path_split ''outputs/transformer'' = (''outputs'', ''transformer'')"
    "path_split ''outputs'' = ([], ''outputs'')"
    by (simp_all add: path_split_def rstrip_sep_def)
  have missing: "\<not> path_exists example_world ''outputs''"
    by (simp add: path_exists_def lookup_path_def start_dir_def example_world_def)
  have first: "makedirs ''outputs'' True example_world =
      (Inr (), example_world\<lparr>fs := (fs example_world)([''home'', ''outputs''] \<mapsto> Dir)\<rparr>)"
    by (simp add: makedirs.simps [of "''outputs''"] makedirs_head_def makedirs_tail_def split
        mkdir_leaf_def mkdir_def parent_and_leaf_def rstrip_sep_def start_dir_def example_world_def)
  have second: "mkdir_leaf ''outputs/transformer'' True
      (example_world\<lparr>fs := (fs example_world)([''home'', ''outputs''] \<mapsto> Dir)\<rparr>) =
      (Inr (), example_nested_world)"
    by (simp add: mkdir_leaf_def mkdir_def parent_and_leaf_def rstrip_sep_def start_dir_def
        example_world_def example_nested_world_def)
  show ?thesis
    by (simp add: makedirs.simps [of "''outputs/transformer''"] makedirs_head_def makedirs_tail_def
        split missing first second)
qed

lemma example_makedirs_existing:
  "makedirs ''outputs/transformer'' True example_nested_world = (Inr (), example_nested_world)"
proof -
  have split: "path_split ''outputs/transformer'' = (''outputs'', ''transformer'')"
    by (simp add: path_split_def rstrip_sep_def)
  have present: "path_exists example_nested_world ''outputs''"
    by (simp add: path_exists_def lookup_path_def start_dir_def example_world_def example_nested_world_def)
  have "mkdir ''outputs/transformer'' example_nested_world = Inl FileExistsError"
    by (simp add: mkdir_def parent_and_leaf_def rstrip_sep_def start_dir_def
        example_world_def example_nested_world_def)
  moreover have "isdir example_nested_world ''outputs/transformer''"
    by (simp add: isdir_def lookup_path_def start_dir_def example_world_def example_nested_world_def)
  ultimately have "mkdir_leaf ''outputs/transformer'' True example_nested_world = (Inr (), example_nested_world)"
    by (simp add: mkdir_leaf_def)
  then show ?thesis
    by (simp add: makedirs.simps [of "''outputs/transformer''"] makedirs_head_def makedirs_tail_def
        split present)
qed











lemma example_read_namespace_more:
  "read_namespace (example_namespace(''verbose'' \<mapsto> PBool True)) = Inr example_args"
  unfolding read_namespace_Inr
  by (simp add: example_namespace_def attr_update example_args_def)


section \<open>The claims\<close>

text \<open>
  Claim C1, as stated, fails: in the example execution 2048 tokens are generated in 3
  seconds, and the row holds 682.6667, which is neither the number 2048 / 3 nor the float
  that the division gives.
\<close>

theorem tokens_per_second_counterexample:
  "run example_env example_benchmark 2 example_world =
     (Inr example_out_file, assign_generation_config example_benchmark 2, example_final_world) \<and>
   result_cell example_final_world example_out_file ''tokens_per_second'' = Some (PFloat (6826667 / 10000)) \<and>
   Some (PFloat (6826667 / 10000)) \<noteq>
     Some (PFloat (of_int GENERATE_LENGTH_PER_EXPERIMENT / (time_end example_env - time_start example_env))) \<and>
   Some (PFloat (6826667 / 10000)) \<noteq>
     Some (PFloat (binary64 (of_int GENERATE_LENGTH_PER_EXPERIMENT /
       binary64 (time_end example_env - time_start example_env))))"
proof -
  have "Some (PFloat (6826667 / 10000)) \<noteq>
      Some (PFloat (of_int GENERATE_LENGTH_PER_EXPERIMENT / (time_end example_env - time_start example_env)))"
    by (simp add: GENERATE_LENGTH_PER_EXPERIMENT_def example_env_def)
  moreover have "binary64 (2048 / 3) \<noteq> 6826667 / 10000"
    by code_simp
  then have "Some (PFloat (6826667 / 10000)) \<noteq>
      Some (PFloat (binary64 (of_int GENERATE_LENGTH_PER_EXPERIMENT /
        binary64 (time_end example_env - time_start example_env))))"
    by (simp add: GENERATE_LENGTH_PER_EXPERIMENT_def example_env_def example_rates)
  ultimately show ?thesis
    using example_run example_tokens_per_second by blast
qed

text \<open>
  Claim C1, amended. In every run that returns, the row that was written holds under
  \<^verbatim>\<open>tokens_per_second\<close> the number of generated tokens divided by the time of the
  generation, rounded to four decimal places. The time is the float difference of the two
  readings of the clock, which is not zero; the division is the float division, and the
  rounding is that of \<^verbatim>\<open>round(x, 4)\<close>. The numerator is the generate length 2048, and
  by the assertions on the shapes it is the length of the output minus the length of the
  input.
\<close>

theorem tokens_per_second_rounded:
  assumes "run e self L w = (Inr p, self', w')"
  shows "\<exists>inputs pred.
           tokenizer self (prepare_inputs BATCH_SIZE L) = Inr inputs \<and>
           model self inputs (generation_config self') = Inr pred \<and>
           int (snd pred) - int (snd inputs) = GENERATE_LENGTH_PER_EXPERIMENT \<and>
           GENERATE_LENGTH_PER_EXPERIMENT = 2048 \<and>
           time_end e - time_start e \<noteq> 0 \<and>
           binary64 (time_end e - time_start e) \<noteq> 0 \<and>
           result_cell w' p ''tokens_per_second'' =
             Some (PFloat (py_round
               (binary64 (of_int (int (snd pred) - int (snd inputs)) /
                  binary64 (time_end e - time_start e))) 4))"
proof -
  from run_success(2) [OF assms] obtain inputs pred
    where tok: "tokenizer self (prepare_inputs BATCH_SIZE L) = Inr inputs"
      and gen: "model self inputs (generation_config self') = Inr pred"
      and len: "int (snd inputs) = L" "int (snd pred) = GENERATE_LENGTH_PER_EXPERIMENT + L"
    by blast
  from len have diff: "int (snd pred) - int (snd inputs) = GENERATE_LENGTH_PER_EXPERIMENT"
    by simp
  have cell: "result_cell w' p ''tokens_per_second'' =
      Some (PFloat (py_round
        (binary64 (of_int (int (snd pred) - int (snd inputs)) /
           binary64 (time_end e - time_start e))) 4))"
    unfolding diff using run_result_frame [OF assms]
    by (simp add: result_cell_def cells_result_data)
  have gl: "GENERATE_LENGTH_PER_EXPERIMENT = 2048"
    by (simp add: GENERATE_LENGTH_PER_EXPERIMENT_def)
  have tc: "time_end e - time_start e \<noteq> 0" "binary64 (time_end e - time_start e) \<noteq> 0"
    using run_success(3) [OF assms] by (simp_all add: binary64_zero_iff)
  from tok gen diff gl tc cell show ?thesis
    by blast
qed

theorem tokens_per_second_rounded_witness:
  "run example_env example_benchmark 2 example_world =
     (Inr example_out_file, assign_generation_config example_benchmark 2, example_final_world) \<and>
   (\<exists>inputs pred.
      tokenizer example_benchmark (prepare_inputs BATCH_SIZE 2) = Inr inputs \<and>
      model example_benchmark inputs (generation_config (assign_generation_config example_benchmark 2)) = Inr pred \<and>
      int (snd pred) - int (snd inputs) = GENERATE_LENGTH_PER_EXPERIMENT \<and>
      GENERATE_LENGTH_PER_EXPERIMENT = 2048 \<and>
      time_end example_env - time_start example_env \<noteq> 0 \<and>
      binary64 (time_end example_env - time_start example_env) \<noteq> 0 \<and>
      result_cell example_final_world example_out_file ''tokens_per_second'' =
        Some (PFloat (py_round
          (binary64 (of_int (int (snd pred) - int (snd inputs)) /
             binary64 (time_end example_env - time_start example_env))) 4)))"
  using tokens_per_second_rounded [OF example_run] example_run by blast

text \<open>
  Claim C2, as stated, fails: a run with the context length -1 tokenizes the empty
  string, which has no token, and the first assertion raises. No tokenizer gives -1
  tokens.
\<close>

theorem shape_assertions_counterexample:
  "fst (run example_env example_benchmark (- 1) example_world) = Inl AssertionError"
  by (simp add: example_run_negative_any)

text \<open>
  Claim C2, amended. The assertions guard the run. A run that returns has tokenized the
  prompt into one row of exactly \<open>L\<close> tokens and has generated an output of length
  \<open>L + 2048\<close>. When the tokenizer and the model return, the run raises
  \<^verbatim>\<open>AssertionError\<close> exactly when one of these shapes is different; so under the
  preconditions of the claim the assert branches are not reached.
\<close>

theorem shape_assertions_guard:
  "(run e self L w = (Inr p, self', w') \<longrightarrow>
      0 \<le> L \<and>
      tokenizer self (prepare_inputs BATCH_SIZE L) = Inr (1, nat L) \<and>
      map_sum id snd (model self (1, nat L) (generation_config (assign_generation_config self L)))
        = Inr (nat (L + 2048)))
   \<and> (tokenizer self (prepare_inputs BATCH_SIZE L) = Inr inputs \<and>
      model self inputs (generation_config (assign_generation_config self L)) = Inr pred \<longrightarrow>
        (fst (run e self L w) = Inl AssertionError) =
        (\<not> (int (snd inputs) = L \<and> int (fst inputs) = 1 \<and> int (snd pred) = L + 2048)))"
proof (intro conjI impI)
  assume r: "run e self L w = (Inr p, self', w')"
  from run_success(2) [OF r] run_success(1) [OF r] obtain inputs pred
    where tok: "tokenizer self (prepare_inputs BATCH_SIZE L) = Inr inputs"
      and gen: "model self inputs (generation_config (assign_generation_config self L)) = Inr pred"
      and len: "int (snd inputs) = L" "int (fst inputs) = 1" "int (snd pred) = 2048 + L"
    by (auto simp: BATCH_SIZE_def GENERATE_LENGTH_PER_EXPERIMENT_def)
  from len have inputs: "inputs = (1, nat L)" and L: "0 \<le> L"
    by (cases inputs; auto)+
  from L show "0 \<le> L" .
  from tok inputs show "tokenizer self (prepare_inputs BATCH_SIZE L) = Inr (1, nat L)"
    by simp
  from gen inputs len show "map_sum id snd (model self (1, nat L)
      (generation_config (assign_generation_config self L))) = Inr (nat (L + 2048))"
    by simp
next
  assume h: "tokenizer self (prepare_inputs BATCH_SIZE L) = Inr inputs \<and>
      model self inputs (generation_config (assign_generation_config self L)) = Inr pred"
  let ?self = "assign_generation_config self L"
  have tok: "tokenizer ?self (prepare_inputs BATCH_SIZE L) = Inr inputs"
    and gen: "model ?self inputs (generation_config ?self) = Inr pred"
    and ml: "min_length (generation_config ?self) = 2048 + L"
    using h by (simp_all add: assign_generation_config_def GENERATE_LENGTH_PER_EXPERIMENT_def)
  let ?data = "result_data ?self BATCH_SIZE L
      (binary64 (of_int GENERATE_LENGTH_PER_EXPERIMENT / binary64 (time_end e - time_start e)))
      (of_int (max 0 (total_memory e)) / 1024 / 1024 / 1024)"
  have run_eq: "fst (run e self L w) =
      (if int (snd inputs) \<noteq> L \<or> int (fst inputs) \<noteq> 1 \<or> int (snd pred) \<noteq> L + 2048
       then Inl AssertionError
       else if time_end e - time_start e = 0 then Inl ZeroDivisionError
       else fst (dump_results e ?self L ?data w))"
    by (simp add: run_def Let_def tok [unfolded BATCH_SIZE_def] gen ml BATCH_SIZE_def
        binary64_zero_iff split: prod.splits)
  have "fst (dump_results e ?self L ?data w) \<noteq> Inl AssertionError"
    using dump_results_errors [of e ?self L ?data w AssertionError]
    by (cases "dump_results e ?self L ?data w") auto
  with run_eq
  show "(fst (run e self L w) = Inl AssertionError) =
        (\<not> (int (snd inputs) = L \<and> int (fst inputs) = 1 \<and> int (snd pred) = L + 2048))"
    by auto
qed

theorem shape_assertions_guard_witness:
  "run example_env example_benchmark 2 example_world =
     (Inr example_out_file, assign_generation_config example_benchmark 2, example_final_world) \<and>
   tokenizer example_benchmark (prepare_inputs BATCH_SIZE 2) = Inr (1, 2) \<and>
   model example_benchmark (1, 2) (generation_config (assign_generation_config example_benchmark 2))
     = Inr (1, 2050) \<and>
   fst (run example_env example_benchmark 2 example_world) \<noteq> Inl AssertionError \<and>
   tokenizer example_benchmark (prepare_inputs BATCH_SIZE (- 1)) = Inr (1, 0) \<and>
   model example_benchmark (1, 0) (generation_config (assign_generation_config example_benchmark (- 1)))
     = Inr (1, 2047) \<and>
   fst (run example_env example_benchmark (- 1) example_world) = Inl AssertionError"
proof -
  have tok2: "tokenizer example_benchmark (prepare_inputs BATCH_SIZE 2) = Inr (1, 2)"
    by (simp add: example_benchmark_def prepare_inputs_def BATCH_SIZE_def
        str_repeat_def DUMMY_INPUT_def example_tokenizer_def numeral_2_eq_2)
  have gen2: "model example_benchmark (1, 2)
      (generation_config (assign_generation_config example_benchmark 2)) = Inr (1, 2050)"
    by (simp add: assign_generation_config_def example_benchmark_def example_model_def
        GENERATE_LENGTH_PER_EXPERIMENT_def)
  have tok1: "tokenizer example_benchmark (prepare_inputs BATCH_SIZE (- 1)) = Inr (1, 0)"
    by (simp add: example_benchmark_def prepare_inputs_def BATCH_SIZE_def
        str_repeat_def example_tokenizer_def)
  have gen1: "model example_benchmark (1, 0)
      (generation_config (assign_generation_config example_benchmark (- 1))) = Inr (1, 2047)"
    by (simp add: assign_generation_config_def example_benchmark_def example_model_def
        GENERATE_LENGTH_PER_EXPERIMENT_def)
  from shape_assertions_guard [of example_env example_benchmark 2 example_world example_out_file
      "assign_generation_config example_benchmark 2" example_final_world "(1, 2)" "(1, 2050)"]
    tok2 gen2
  have pos: "fst (run example_env example_benchmark 2 example_world) \<noteq> Inl AssertionError"
    by simp
  from shape_assertions_guard [of example_env example_benchmark "- 1" example_world example_out_file
      "assign_generation_config example_benchmark 2" example_final_world "(1, 0)" "(1, 2047)"]
    tok1 gen1
  have neg: "fst (run example_env example_benchmark (- 1) example_world) = Inl AssertionError"
    by simp
  from example_run tok2 gen2 pos tok1 gen1 neg show ?thesis
    by blast
qed

text \<open>
  Claim C3. In every run that returns, the table written to the returned path has the
  eight columns of the claim, in this order, and one row of eight values: the model
  identifier, the batch size 1, the context length, the generate length 2048, the
  flash-attention flag, the comment, and two floats.
\<close>

theorem result_record_fields:
  assumes "run e self L w = (Inr p, self', w')"
  shows "\<exists>mid tps gb.
           model_id self = Some mid \<and>
           result_frame w' p =
             Some \<lparr>columns = [''model_id'', ''batch_size'', ''context_length_per_experiment'',
                       ''generate_length_per_experiment'', ''use_flash_attn'', ''comment'',
                       ''tokens_per_second'', ''max_gpu_memory_cost_gb''],
                   rows = [[Some (PStr mid), Some (PInt 1), Some (PInt L), Some (PInt 2048),
                            Some (PBool True), Some (PStr ''default''),
                            Some (PFloat tps), Some (PFloat gb)]]\<rparr>"
proof -
  from run_success(4) [OF assms] dump_results_success
  obtain mid where "model_id self' = Some mid"
    by blast
  with run_success(1) [OF assms] have mid: "model_id self = Some mid" "model_id self' = Some mid"
    by (simp_all add: assign_generation_config_def)
  from run_result_frame [OF assms] mid show ?thesis
    by (simp add: DataFrame_result_data BATCH_SIZE_def GENERATE_LENGTH_PER_EXPERIMENT_def
        USE_FLASH_ATTN_def COMMENT_def)
qed

theorem result_record_fields_witness:
  "run example_env example_benchmark 2 example_world =
     (Inr example_out_file, assign_generation_config example_benchmark 2, example_final_world) \<and>
   (\<exists>mid tps gb.
      model_id example_benchmark = Some mid \<and>
      result_frame example_final_world example_out_file =
        Some \<lparr>columns = [''model_id'', ''batch_size'', ''context_length_per_experiment'',
                  ''generate_length_per_experiment'', ''use_flash_attn'', ''comment'',
                  ''tokens_per_second'', ''max_gpu_memory_cost_gb''],
              rows = [[Some (PStr mid), Some (PInt 1), Some (PInt 2), Some (PInt 2048),
                       Some (PBool True), Some (PStr ''default''),
                       Some (PFloat tps), Some (PFloat gb)]]\<rparr>)"
  using result_record_fields [OF example_run] example_run by blast









text \<open>
  Claim C8. In every run that returns, the row that was written holds under
  \<^verbatim>\<open>max_gpu_memory_cost_gb\<close> the sum of the counters of all devices, divided by 1024
  three times and rounded to four decimal places; the loop computes that sum, and the
  maximum with 0 is the sum itself.
\<close>

theorem peak_memory_gb:
  assumes "run e self L w = (Inr p, self', w')"
  shows "result_cell w' p ''max_gpu_memory_cost_gb'' =
           Some (PFloat (py_round
             (of_nat (\<Sum>i<device_count e. max_memory_allocated e i) / 1024 / 1024 / 1024) 4))
         \<and> total_memory e = int (\<Sum>i<device_count e. max_memory_allocated e i)
         \<and> max 0 (total_memory e) = total_memory e"
proof -
  have "0 \<le> total_memory e"
    unfolding total_memory_sum by (rule of_nat_0_le_iff)
  then have nonneg: "max 0 (total_memory e) = total_memory e"
    by (rule max_absorb2)
  from run_result_frame [OF assms] show ?thesis
    by (simp add: result_cell_def cells_result_data nonneg) (simp add: total_memory_sum)
qed

theorem peak_memory_gb_witness:
  "run example_env example_benchmark 2 example_world =
     (Inr example_out_file, assign_generation_config example_benchmark 2, example_final_world) \<and>
   result_cell example_final_world example_out_file ''max_gpu_memory_cost_gb'' = Some (PFloat (3 / 2)) \<and>
   total_memory example_env = 1610612736"
  using peak_memory_gb [OF example_run] example_run
  by (simp add: example_env_def lessThan_nat_numeral lessThan_Suc example_rates)

text \<open>
  Claim C9. The batch size is the constant 1: the batch that is tokenized has one string,
  and in every run that returns the tokenizer gave one row and the row that was written
  holds 1 under \<^verbatim>\<open>batch_size\<close>. The constant is not a part of the instance or of the
  state, so nothing assigns it.
\<close>

theorem batch_size_is_one:
  "BATCH_SIZE = 1 \<and> length (prepare_inputs BATCH_SIZE L) = 1 \<and>
   (run e self L w = (Inr p, self', w') \<longrightarrow>
      map_sum id fst (tokenizer self (prepare_inputs BATCH_SIZE L)) = Inr 1 \<and>
      result_cell w' p ''batch_size'' = Some (PInt 1))"
proof (intro conjI impI)
  show "BATCH_SIZE = 1"
    by (simp add: BATCH_SIZE_def)
  show "length (prepare_inputs BATCH_SIZE L) = 1"
    by (simp add: prepare_inputs_def BATCH_SIZE_def)
next
  assume r: "run e self L w = (Inr p, self', w')"
  from run_success(2) [OF r]
  show "map_sum id fst (tokenizer self (prepare_inputs BATCH_SIZE L)) = Inr 1"
    by (auto simp: BATCH_SIZE_def)
  from run_result_frame [OF r]
  show "result_cell w' p ''batch_size'' = Some (PInt 1)"
    by (simp add: result_cell_def cells_result_data) (simp add: BATCH_SIZE_def)
qed

theorem batch_size_is_one_witness:
  "run example_env example_benchmark 2 example_world =
     (Inr example_out_file, assign_generation_config example_benchmark 2, example_final_world) \<and>
   map_sum id fst (tokenizer example_benchmark (prepare_inputs BATCH_SIZE 2)) = Inr 1 \<and>
   result_cell example_final_world example_out_file ''batch_size'' = Some (PInt 1)"
  using batch_size_is_one [of 2 example_env example_benchmark example_world example_out_file
      "assign_generation_config example_benchmark 2" example_final_world] example_run
  by blast

text \<open>
  Claim C10 fails on the empty output directory: the path of the file is then the bare
  name, its directory is the empty string, \<^verbatim>\<open>os.makedirs('')\<close> raises
  \<^verbatim>\<open>FileNotFoundError\<close>, and the run ends there, after the generation, with nothing
  written.
\<close>

theorem empty_outputs_dir_fails:
  "run example_env (example_benchmark\<lparr>outputs_dir := []\<rparr>) 2 example_world =
     (Inl FileNotFoundError, assign_generation_config (example_benchmark\<lparr>outputs_dir := []\<rparr>) 2,
      example_world)"
proof -
  let ?self = "assign_generation_config (example_benchmark\<lparr>outputs_dir := []\<rparr>) 2"
  have tok: "tokenizer ?self (prepare_inputs 1 2) = Inr (1, 2)"
    by (simp add: assign_generation_config_def example_benchmark_def prepare_inputs_def
        str_repeat_def DUMMY_INPUT_def example_tokenizer_def numeral_2_eq_2)
  have gen: "model ?self inputs (generation_config ?self) = Inr (fst inputs, 2050)" for inputs
    by (simp add: assign_generation_config_def example_benchmark_def example_model_def
        GENERATE_LENGTH_PER_EXPERIMENT_def)
  have ml: "min_length (generation_config ?self) = 2050"
    by (simp add: assign_generation_config_def GENERATE_LENGTH_PER_EXPERIMENT_def)
  have tc: "time_end example_env \<noteq> time_start example_env"
    by (simp add: example_env_def)
  have mid: "model_id ?self = Some ''Q/m''" and dir: "outputs_dir ?self = []"
    by (simp_all add: assign_generation_config_def example_benchmark_def)
  have "dirname (path_join [] (out_file_name ''Q/m'' 2 (strftime (clock_now example_env)))) = []"
    using path_split_join [OF out_file_name_no_sep, of "[]" "''Q/m''" 2 "clock_now example_env"]
    by (simp add: dirname_def)
  then have "dump_results example_env ?self 2 data example_world = (Inl FileNotFoundError, example_world)"
    for data
    by (simp add: dump_results_def mid dir makedirs_empty)
  then show ?thesis
    by (simp add: run_def Let_def BATCH_SIZE_def tok gen ml tc binary64_zero_iff)
qed

end
